theory Spec2Isabelle
  imports Complex_Main "HOL-Library.Stream" "HOL-Library.Word"
begin

section \<open>The feed generator: trader profiles, pattern injection, engine\<close>

text \<open>
  The development embeds the Go packages \<^verbatim>\<open>profiles\<close>, \<^verbatim>\<open>patterns\<close>,
  \<^verbatim>\<open>config\<close> and \<^verbatim>\<open>generator\<close> of the feed generator.

  Conventions of the embedding:
  \<^item> \<^verbatim>\<open>float64\<close> is the type \<open>real\<close>: arithmetic is exact, rounding, infinities and NaN
    of IEEE arithmetic are not represented.
  \<^item> The typed string constants of Go (\<^verbatim>\<open>TraderType\<close>, \<^verbatim>\<open>FraudType\<close>) are strings.
  \<^item> Everything the program obtains from outside (\<^verbatim>\<open>math/rand\<close>, \<^verbatim>\<open>uuid.New\<close>,
    \<^verbatim>\<open>time.Now\<close>, the result of a publish call) is read from an explicit,
    infinite sequence of answers that is threaded through every function: each call
    of such a primitive consumes the next answer.
\<close>

subsection \<open>Time (package \<^verbatim>\<open>time\<close>)\<close>

text \<open>
  An instant is a count of nanoseconds together with the offset (in seconds east of
  UTC) of its location; locations are fixed offsets, so a civil day has 86400 seconds.
  The calendar date (year, month, day) of an instant is represented by the number of
  its civil day; \<^verbatim>\<open>time.Date\<close> rebuilds an instant from such a day, a clock time
  and an offset.
\<close>

record Time =
  UnixNano :: int
  ZoneOffset :: int

type_synonym Duration = int

definition Second :: Duration where
  "Second = 1000000000"

definition Minute :: Duration where
  "Minute = 60 * Second"

definition Add :: "Time \<Rightarrow> Duration \<Rightarrow> Time" where
  "Add t d = t\<lparr>UnixNano := UnixNano t + d\<rparr>"

definition After :: "Time \<Rightarrow> Time \<Rightarrow> bool" where
  "After t u = (UnixNano t > UnixNano u)"

definition local_seconds :: "Time \<Rightarrow> int" where
  "local_seconds t = UnixNano t div Second + ZoneOffset t"

definition civil_day :: "Time \<Rightarrow> int" where
  "civil_day t = local_seconds t div 86400"


definition Date :: "int \<Rightarrow> nat \<Rightarrow> nat \<Rightarrow> nat \<Rightarrow> int \<Rightarrow> int \<Rightarrow> Time" where
  "Date day hour minute sec nsec offset =
     \<lparr>UnixNano = (day * 86400 + int hour * 3600 + int minute * 60 + int sec - offset) * Second + nsec,
      ZoneOffset = offset\<rparr>"

subsection \<open>The outside world\<close>

record answer =
  f64 :: real
  i63 :: nat
  norm :: real
  uuid :: nat
  clock :: Time
  publish_fails :: bool

type_synonym world = "answer stream"

text \<open>\<^verbatim>\<open>rand.Float64\<close> returns a number of the half-open interval [0, 1).\<close>

definition valid_world :: "world \<Rightarrow> bool" where
  "valid_world w = (\<forall>a \<in> sset w. 0 \<le> f64 a \<and> f64 a < 1)"

definition Float64 :: "world \<Rightarrow> real \<times> world" where
  "Float64 w = (f64 (shd w), stl w)"

text \<open>\<^verbatim>\<open>rand.Intn n\<close> returns a number of [0, n); every call of the program has n > 0.\<close>

definition Intn :: "nat \<Rightarrow> world \<Rightarrow> nat \<times> world" where
  "Intn n w = (i63 (shd w) mod n, stl w)"

definition NormFloat64 :: "world \<Rightarrow> real \<times> world" where
  "NormFloat64 w = (norm (shd w), stl w)"

definition uuid_New :: "world \<Rightarrow> nat \<times> world" where
  "uuid_New w = (uuid (shd w), stl w)"

definition time_Now :: "world \<Rightarrow> Time \<times> world" where
  "time_Now w = (clock (shd w), stl w)"

subsection \<open>Package \<^verbatim>\<open>profiles\<close>\<close>

type_synonym TraderType = string

definition HFTTrader :: TraderType where "HFTTrader = ''HFT''"
definition RegularTrader :: TraderType where "RegularTrader = ''REGULAR''"
definition CasualTrader :: TraderType where "CasualTrader = ''CASUAL''"
definition FraudTrader :: TraderType where "FraudTrader = ''FRAUD''"

type_synonym FraudType = string

definition NoFraud :: FraudType where "NoFraud = ''NONE''"
definition WashTrade :: FraudType where "WashTrade = ''WASH''"
definition VelocitySpike :: FraudType where "VelocitySpike = ''VELOCITY''"
definition Anomaly :: FraudType where "Anomaly = ''ANOMALY''"
definition AllFraud :: FraudType where "AllFraud = ''ALL''"

record TraderProfile =
  UserID :: string
  Type :: TraderType
  TypicalSymbols :: "string list"
  AvgTradeSize :: real
  Volatility :: real
  ActiveHours :: "int list"
  TradesPerHour :: int
  FraudPattern :: FraudType

definition BlueChipSymbols :: "string list" where
  "BlueChipSymbols = [''AAPL'', ''MSFT'', ''GOOGL'', ''AMZN'', ''META'', ''NVDA'', ''TSLA'']"

definition PopularSymbols :: "string list" where
  "PopularSymbols = [''AAPL'', ''TSLA'', ''AMZN'', ''NVDA'', ''SPY'', ''QQQ'']"

definition ETFSymbols :: "string list" where
  "ETFSymbols = [''SPY'', ''QQQ'', ''VTI'', ''IWM'', ''DIA'']"

definition PennyStocks :: "string list" where
  "PennyStocks = [''PENNY_A'', ''PENNY_B'', ''PENNY_C'', ''MICRO_X'', ''MICRO_Y'']"

definition GetDefaultProfiles :: "TraderProfile list" where
  "GetDefaultProfiles =
     [\<lparr>UserID = ''HFT_001'', Type = HFTTrader, TypicalSymbols = BlueChipSymbols,
        AvgTradeSize = 75000, Volatility = 0.2, ActiveHours = [9, 10, 11, 12, 13, 14, 15],
        TradesPerHour = 100, FraudPattern = NoFraud\<rparr>,
      \<lparr>UserID = ''HFT_002'', Type = HFTTrader,
        TypicalSymbols = [''TSLA'', ''NVDA'', ''META'', ''AMZN''],
        AvgTradeSize = 100000, Volatility = 0.3, ActiveHours = [9, 10, 11, 12, 13, 14, 15, 16],
        TradesPerHour = 150, FraudPattern = NoFraud\<rparr>,
      \<lparr>UserID = ''HFT_003'', Type = HFTTrader, TypicalSymbols = BlueChipSymbols,
        AvgTradeSize = 50000, Volatility = 0.2, ActiveHours = [9, 10, 11, 12, 13, 14, 15],
        TradesPerHour = 80, FraudPattern = NoFraud\<rparr>,
      \<lparr>UserID = ''USER_001'', Type = RegularTrader, TypicalSymbols = take 4 PopularSymbols,
        AvgTradeSize = 5000, Volatility = 0.5, ActiveHours = [10, 14],
        TradesPerHour = 2, FraudPattern = NoFraud\<rparr>,
      \<lparr>UserID = ''USER_002'', Type = RegularTrader,
        TypicalSymbols = [''AAPL'', ''MSFT'', ''GOOGL''],
        AvgTradeSize = 7500, Volatility = 0.4, ActiveHours = [9, 12, 15],
        TradesPerHour = 3, FraudPattern = NoFraud\<rparr>,
      \<lparr>UserID = ''USER_003'', Type = RegularTrader, TypicalSymbols = PopularSymbols,
        AvgTradeSize = 4000, Volatility = 0.6, ActiveHours = [11, 14],
        TradesPerHour = 1, FraudPattern = NoFraud\<rparr>,
      \<lparr>UserID = ''USER_004'', Type = RegularTrader,
        TypicalSymbols = [''TSLA'', ''NVDA'', ''AMD''],
        AvgTradeSize = 6000, Volatility = 0.5, ActiveHours = [10, 13],
        TradesPerHour = 2, FraudPattern = NoFraud\<rparr>,
      \<lparr>UserID = ''USER_005'', Type = RegularTrader, TypicalSymbols = take 3 PopularSymbols,
        AvgTradeSize = 5500, Volatility = 0.4, ActiveHours = [9, 14],
        TradesPerHour = 2, FraudPattern = NoFraud\<rparr>,
      \<lparr>UserID = ''USER_006'', Type = RegularTrader, TypicalSymbols = take 4 BlueChipSymbols,
        AvgTradeSize = 8000, Volatility = 0.3, ActiveHours = [10, 15],
        TradesPerHour = 3, FraudPattern = NoFraud\<rparr>,
      \<lparr>UserID = ''USER_007'', Type = RegularTrader, TypicalSymbols = PopularSymbols,
        AvgTradeSize = 4500, Volatility = 0.5, ActiveHours = [11, 14],
        TradesPerHour = 1, FraudPattern = NoFraud\<rparr>,
      \<lparr>UserID = ''CASUAL_001'', Type = CasualTrader, TypicalSymbols = take 2 ETFSymbols,
        AvgTradeSize = 1000, Volatility = 0.3, ActiveHours = [10],
        TradesPerHour = 1, FraudPattern = NoFraud\<rparr>,
      \<lparr>UserID = ''FRAUD_WASH_001'', Type = FraudTrader, TypicalSymbols = PennyStocks,
        AvgTradeSize = 10000, Volatility = 0.1, ActiveHours = [9, 10, 11, 12, 13, 14, 15],
        TradesPerHour = 20, FraudPattern = WashTrade\<rparr>,
      \<lparr>UserID = ''FRAUD_VELOCITY_001'', Type = FraudTrader, TypicalSymbols = take 3 PopularSymbols,
        AvgTradeSize = 5000, Volatility = 0.2, ActiveHours = [14],
        TradesPerHour = 5, FraudPattern = VelocitySpike\<rparr>,
      \<lparr>UserID = ''FRAUD_ANOMALY_001'', Type = FraudTrader, TypicalSymbols = take 3 BlueChipSymbols,
        AvgTradeSize = 3000, Volatility = 0.4, ActiveHours = [10, 14],
        TradesPerHour = 2, FraudPattern = Anomaly\<rparr>]"

text \<open>
  \<^verbatim>\<open>SelectProfile\<close>: one uniform draw chooses the bucket; an empty bucket falls through
  to a draw over the whole catalog; an empty catalog gives \<^verbatim>\<open>nil\<close>.
\<close>

definition SelectProfile ::
  "TraderProfile list \<Rightarrow> real \<Rightarrow> real \<Rightarrow> real \<Rightarrow> world \<Rightarrow> TraderProfile option \<times> world" where
  "SelectProfile profiles hftRatio regularRatio casualRatio w =
     (let (r, w1) = Float64 w;
          hftProfiles = filter (\<lambda>p. Type p = HFTTrader) profiles;
          regularProfiles = filter (\<lambda>p. Type p = RegularTrader) profiles;
          casualProfiles = filter (\<lambda>p. Type p = CasualTrader) profiles;
          fraudProfiles = filter (\<lambda>p. Type p = FraudTrader) profiles;
          fallback = (\<lambda>w'. if length profiles > 0
                             then (let (i, w2) = Intn (length profiles) w' in (Some (profiles ! i), w2))
                             else (None, w'))
      in if r < hftRatio then
           (if length hftProfiles > 0
            then (let (i, w2) = Intn (length hftProfiles) w1 in (Some (hftProfiles ! i), w2))
            else fallback w1)
         else if r < hftRatio + regularRatio then
           (if length regularProfiles > 0
            then (let (i, w2) = Intn (length regularProfiles) w1 in (Some (regularProfiles ! i), w2))
            else fallback w1)
         else
           (if length casualProfiles > 0
            then (let (i, w2) = Intn (length casualProfiles) w1 in (Some (casualProfiles ! i), w2))
            else fallback w1))"

definition SelectFraudProfile ::
  "TraderProfile list \<Rightarrow> FraudType \<Rightarrow> world \<Rightarrow> TraderProfile option \<times> world" where
  "SelectFraudProfile profiles fraudType w =
     (let fraudProfiles =
            filter (\<lambda>p. Type p = FraudTrader \<and> (fraudType = AllFraud \<or> FraudPattern p = fraudType))
              profiles
      in if length fraudProfiles > 0
         then (let (i, w1) = Intn (length fraudProfiles) w in (Some (fraudProfiles ! i), w1))
         else (None, w))"

definition GetRandomSymbol :: "TraderProfile \<Rightarrow> world \<Rightarrow> string \<times> world" where
  "GetRandomSymbol p w =
     (if length (TypicalSymbols p) = 0 then (''AAPL'', w)
      else
        let (r, w1) = Float64 w in
        if r < 0.8 then
          (let (i, w2) = Intn (length (TypicalSymbols p)) w1 in (TypicalSymbols p ! i, w2))
        else
          (let allSymbols = ([] @ BlueChipSymbols) @ PopularSymbols @ ETFSymbols;
               (i, w2) = Intn (length allSymbols) w1
           in (allSymbols ! i, w2)))"

subsection \<open>Package \<^verbatim>\<open>patterns\<close>\<close>

text \<open>
  Modelled from the spec: the declaration of \<^verbatim>\<open>models.Trade\<close> is in a package that is
  not part of the sources at hand. The record has the fields that the generator
  assigns; the spec describes it as "unique identifier, owning user identity, symbol,
  amount (floating quantity), price (floating, currency units), side (Buy | Sell),
  and timestamp".
\<close>

datatype TradeType = TradeTypeBuy | TradeTypeSell

record Trade =
  ID :: nat
  UserID :: string
  Symbol :: string
  Amount :: real
  Price :: real
  Type :: TradeType
  Timestamp :: Time

record PatternGenerator =
  symbolPrices :: "string \<rightharpoonup> real"

definition GenerateAmount :: "PatternGenerator \<Rightarrow> TraderProfile \<Rightarrow> world \<Rightarrow> real \<times> world" where
  "GenerateAmount pg profile w =
     (let mean = AvgTradeSize profile;
          stdDev = mean * Volatility profile;
          (z, w1) = NormFloat64 w;
          amount = mean + z * stdDev;
          minAmount = mean * 0.1;
          maxAmount = mean * 3.0;
          amount = (if amount < minAmount then minAmount else amount);
          amount = (if amount > maxAmount then maxAmount else amount)
      in (amount, w1))"

definition getSymbolPrices :: "string \<rightharpoonup> real" where
  "getSymbolPrices = map_of
     [(''AAPL'', 175.50), (''MSFT'', 378.25), (''GOOGL'', 140.75), (''AMZN'', 155.35),
      (''META'', 362.80), (''NVDA'', 495.20), (''TSLA'', 242.80),
      (''AMD'', 142.30), (''NFLX'', 485.60), (''DIS'', 95.40),
      (''SPY'', 475.20), (''QQQ'', 405.80), (''VTI'', 245.30), (''IWM'', 198.50),
      (''DIA'', 382.40),
      (''PENNY_A'', 2.50), (''PENNY_B'', 1.80), (''PENNY_C'', 3.20), (''MICRO_X'', 0.85),
      (''MICRO_Y'', 1.25)]"

definition NewPatternGenerator :: PatternGenerator where
  "NewPatternGenerator = \<lparr>symbolPrices = getSymbolPrices\<rparr>"

definition GetPrice :: "PatternGenerator \<Rightarrow> string \<Rightarrow> world \<Rightarrow> real \<times> world" where
  "GetPrice pg symbol w =
     (let basePrice = (case symbolPrices pg symbol of Some p \<Rightarrow> p | None \<Rightarrow> 100.0);
          (r, w1) = Float64 w;
          variation = (r - 0.5) * 0.02
      in (basePrice * (1 + variation), w1))"

definition RandomTradeType :: "PatternGenerator \<Rightarrow> world \<Rightarrow> TradeType \<times> world" where
  "RandomTradeType pg w =
     (let (r, w1) = Float64 w in if r < 0.5 then (TradeTypeBuy, w1) else (TradeTypeSell, w1))"

definition InjectWashTrade ::
  "PatternGenerator \<Rightarrow> TraderProfile \<Rightarrow> Time \<Rightarrow> world \<Rightarrow> Trade list \<times> world" where
  "InjectWashTrade pg profile baseTime w =
     (let (symbol, w1) = GetRandomSymbol profile w;
          (amount, w2) = GenerateAmount pg profile w1;
          (price, w3) = GetPrice pg symbol w2;
          (id0, w4) = uuid_New w3;
          (id1, w5) = uuid_New w4;
          (r, w6) = Float64 w5;
          (k, w7) = Intn 4 w6
      in ([\<lparr>ID = id0, UserID = TraderProfile.UserID profile, Symbol = symbol, Amount = amount,
             Price = price, Type = TradeTypeBuy, Timestamp = baseTime\<rparr>,
           \<lparr>ID = id1, UserID = TraderProfile.UserID profile, Symbol = symbol, Amount = amount,
             Price = price * (1 + (r - 0.5) * 0.001), Type = TradeTypeSell,
             Timestamp = Add baseTime (int (1 + k) * Second)\<rparr>], w7))"

text \<open>
  The loop of \<^verbatim>\<open>InjectVelocitySpike\<close>, from index \<open>i\<close> up to \<open>numTrades\<close>; the trades
  of the iterations are returned in order.
\<close>

function velocity_loop ::
  "PatternGenerator \<Rightarrow> TraderProfile \<Rightarrow> Time \<Rightarrow> string \<Rightarrow> real \<Rightarrow> nat \<Rightarrow> nat \<Rightarrow> world
     \<Rightarrow> Trade list \<times> world" where
  "velocity_loop pg profile baseTime symbol basePrice numTrades i w =
     (if i < numTrades then
        (let (amount, w1) = GenerateAmount pg profile w;
             (r, w2) = Float64 w1;
             price = basePrice * (1 + (r - 0.5) * 0.02);
             (id, w3) = uuid_New w2;
             (ty, w4) = RandomTradeType pg w3;
             trade = \<lparr>ID = id, UserID = TraderProfile.UserID profile, Symbol = symbol,
                       Amount = amount, Price = price, Type = ty,
                       Timestamp = Add baseTime (int i * Second)\<rparr>;
             (rest, w5) = velocity_loop pg profile baseTime symbol basePrice numTrades (i + 1) w4
         in (trade # rest, w5))
      else ([], w))"
  by pat_completeness auto
termination
  by (relation "measure (\<lambda>(pg, profile, baseTime, symbol, basePrice, numTrades, i, w). numTrades - i)")
     auto

declare velocity_loop.simps [simp del]

definition InjectVelocitySpike ::
  "PatternGenerator \<Rightarrow> TraderProfile \<Rightarrow> Time \<Rightarrow> world \<Rightarrow> Trade list \<times> world" where
  "InjectVelocitySpike pg profile baseTime w =
     (let (k, w1) = Intn 11 w;
          numTrades = 10 + k;
          (symbol, w2) = GetRandomSymbol profile w1;
          (basePrice, w3) = GetPrice pg symbol w2
      in velocity_loop pg profile baseTime symbol basePrice numTrades 0 w3)"

definition InjectAnomaly ::
  "PatternGenerator \<Rightarrow> TraderProfile \<Rightarrow> Time \<Rightarrow> world \<Rightarrow> Trade \<times> world" where
  "InjectAnomaly pg profile baseTime w =
     (let (anomalyType, w1) = Intn 4 w;
          (id, w2) = uuid_New w1;
          (symbol, w3) = GetRandomSymbol profile w2;
          (amount, w4) = GenerateAmount pg profile w3;
          (ty, w5) = RandomTradeType pg w4;
          trade = \<lparr>ID = id, UserID = TraderProfile.UserID profile, Symbol = symbol,
                    Amount = amount, Price = 0, Type = ty, Timestamp = baseTime\<rparr>
      in if anomalyType = 0 then
           (let trade = trade\<lparr>Amount := AvgTradeSize profile * 10\<rparr>;
                (p, w6) = GetPrice pg (Symbol trade) w5
            in (trade\<lparr>Price := p\<rparr>, w6))
         else if anomalyType = 1 then
           (let (h, w6) = Intn 4 w5;
                nightHour = 2 + h;
                (m, w7) = Intn 60 w6;
                (s, w8) = Intn 60 w7;
                trade = trade\<lparr>Timestamp :=
                          Date (civil_day baseTime) nightHour m s 0 (ZoneOffset baseTime)\<rparr>;
                (p, w9) = GetPrice pg (Symbol trade) w8
            in (trade\<lparr>Price := p\<rparr>, w9))
         else if anomalyType = 2 then
           (let (i, w6) = Intn (length PennyStocks) w5;
                trade = trade\<lparr>Symbol := PennyStocks ! i\<rparr>;
                (r, w7) = Float64 w6
            in (trade\<lparr>Price := r * 5 + 0.5\<rparr>, w7))
         else if anomalyType = 3 then
           (let (p, w6) = GetPrice pg (Symbol trade) w5;
                (r, w7) = Float64 w6
            in (trade\<lparr>Price := p * (1 + (r - 0.5) * 0.5)\<rparr>, w7))
         else (trade, w5))"

subsection \<open>Package \<^verbatim>\<open>config\<close>\<close>

record RedisConfig =
  Host :: string
  Port :: int
  Password :: string
  DB :: int

record GenerateConfig =
  TPS :: int
  Duration :: Duration
  FraudRate :: real
  FraudType :: string
  Verbose :: bool
  StatsInterval :: Duration

record ProfilesConfig =
  HFTRatio :: real
  RegularRatio :: real
  CasualRatio :: real

record Config =
  Redis :: RedisConfig
  Generate :: GenerateConfig
  Profiles :: ProfilesConfig

text \<open>
  The settings held by the configuration library (flags, environment, file), one
  field for each key that \<^verbatim>\<open>LoadConfig\<close> reads; a key that was never set reads as the
  zero value of its type.
\<close>

record Viper =
  redis_host :: string
  redis_port :: int
  redis_password :: string
  redis_db :: int
  generate_tps :: int
  generate_duration :: Duration
  generate_fraud_rate :: real
  generate_fraud_type :: string
  generate_verbose :: bool
  generate_stats_interval :: Duration
  profiles_hft_ratio :: real
  profiles_regular_ratio :: real
  profiles_casual_ratio :: real

datatype error =
  TpsOutOfRange int
  | FraudRateOutOfRange real
  | RatiosDoNotSumToOne real
  | NoProfileSelected
  | FailedToPublishTrade
  | FailedToPublishFraudTrade

definition Validate :: "Config \<Rightarrow> error option" where
  "Validate c =
     (if TPS (Generate c) < 1 \<or> TPS (Generate c) > 10000
        then Some (TpsOutOfRange (TPS (Generate c)))
      else if FraudRate (Generate c) < 0 \<or> FraudRate (Generate c) > 1
        then Some (FraudRateOutOfRange (FraudRate (Generate c)))
      else
        let sum = HFTRatio (Profiles c) + RegularRatio (Profiles c) + CasualRatio (Profiles c)
        in if sum < 0.99 \<or> sum > 1.01 then Some (RatiosDoNotSumToOne sum) else None)"

definition LoadConfig :: "Viper \<Rightarrow> error + Config" where
  "LoadConfig v =
     (let r = \<lparr>Host = redis_host v, Port = redis_port v, Password = redis_password v,
                DB = redis_db v\<rparr>;
          g = \<lparr>TPS = generate_tps v, Duration = generate_duration v,
                FraudRate = generate_fraud_rate v, FraudType = generate_fraud_type v,
                Verbose = generate_verbose v, StatsInterval = generate_stats_interval v\<rparr>;
          p = \<lparr>HFTRatio = profiles_hft_ratio v, RegularRatio = profiles_regular_ratio v,
                CasualRatio = profiles_casual_ratio v\<rparr>;
          r = (if Port r = 0 then r\<lparr>Port := 6379\<rparr> else r);
          g = (if TPS g = 0 then g\<lparr>TPS := 100\<rparr> else g);
          g = (if Duration g = 0 then g\<lparr>Duration := 5 * Minute\<rparr> else g);
          g = (if StatsInterval g = 0 then g\<lparr>StatsInterval := 10 * Second\<rparr> else g);
          g = (if FraudType g = [] then g\<lparr>FraudType := ''ALL''\<rparr> else g);
          p = (if HFTRatio p = 0 then p\<lparr>HFTRatio := 0.20\<rparr> else p);
          p = (if RegularRatio p = 0 then p\<lparr>RegularRatio := 0.70\<rparr> else p);
          p = (if CasualRatio p = 0 then p\<lparr>CasualRatio := 0.10\<rparr> else p);
          cfg = \<lparr>Redis = r, Generate = g, Profiles = p\<rparr>
      in case Validate cfg of Some err \<Rightarrow> Inl err | None \<Rightarrow> Inr cfg)"

subsection \<open>Package \<^verbatim>\<open>generator\<close>\<close>

text \<open>
  The counters are 64-bit atomics: addition wraps. Each key of the two counter maps
  owns a counter of its own, so a map from keys to counter values represents them.
\<close>

record Statistics =
  TotalTrades :: "64 word"
  FraudPatterns :: "64 word"
  VolumeGenerated :: "64 word"
  ByProfile :: "string \<rightharpoonup> 64 word"
  BySymbol :: "string \<rightharpoonup> 64 word"
  StartTime :: Time

text \<open>
  Modelled from the spec: the sink \<^verbatim>\<open>redis.RedisClient\<close> is in a package that is not
  part of the sources at hand; the spec describes it as an abstract
  "publish(trade) -> error" capability. The client is represented by the list of
  the trades it has accepted, oldest first; whether a call fails is an answer of the
  outside world, and a failed call leaves the list as it was.
\<close>

type_synonym RedisClient = "Trade list"

definition PublishTradeToStream ::
  "RedisClient \<Rightarrow> Trade \<Rightarrow> world \<Rightarrow> bool \<times> RedisClient \<times> world" where
  "PublishTradeToStream client trade w =
     (if publish_fails (shd w) then (True, client, stl w) else (False, client @ [trade], stl w))"

record Generator =
  cfg :: Config
  redisClient :: RedisClient
  profiles :: "TraderProfile list"
  patternGenerator :: PatternGenerator
  stats :: Statistics

definition zeroTime :: Time where
  "zeroTime = \<lparr>UnixNano = - 62135596800 * Second, ZoneOffset = 0\<rparr>"

definition IsZero :: "Time \<Rightarrow> bool" where
  "IsZero t = (UnixNano t = UnixNano zeroTime)"

definition NewGenerator :: "Config \<Rightarrow> RedisClient \<Rightarrow> world \<Rightarrow> Generator \<times> world" where
  "NewGenerator c client w =
     (let (now, w1) = time_Now w
      in (\<lparr>cfg = c, redisClient = client, profiles = GetDefaultProfiles,
            patternGenerator = NewPatternGenerator,
            stats = \<lparr>TotalTrades = 0, FraudPatterns = 0, VolumeGenerated = 0,
                      ByProfile = Map.empty, BySymbol = Map.empty, StartTime = now\<rparr>\<rparr>, w1))"

text \<open>
  The conversion \<^verbatim>\<open>uint64(x)\<close> of a float truncates towards zero; the result is
  reduced modulo \<open>2^64\<close> (Go leaves the value of an out-of-range conversion to the
  implementation).
\<close>

definition uint64_of_float :: "real \<Rightarrow> 64 word" where
  "uint64_of_float x = word_of_int (if 0 \<le> x then \<lfloor>x\<rfloor> else \<lceil>x\<rceil>)"

definition updateStats :: "Generator \<Rightarrow> Trade \<Rightarrow> TraderProfile \<Rightarrow> bool \<Rightarrow> Generator" where
  "updateStats g trade profile isFraud =
     (let st = stats g;
          st = st\<lparr>TotalTrades := TotalTrades st + 1\<rparr>;
          st = (if isFraud then st\<lparr>FraudPatterns := FraudPatterns st + 1\<rparr> else st);
          volumeCents = uint64_of_float (Amount trade * Price trade * 100);
          st = st\<lparr>VolumeGenerated := VolumeGenerated st + volumeCents\<rparr>;
          profileType = TraderProfile.Type profile;
          st = (case ByProfile st profileType of
                  Some counter \<Rightarrow> st\<lparr>ByProfile := (ByProfile st)(profileType \<mapsto> counter + 1)\<rparr>
                | None \<Rightarrow> st);
          st = (case BySymbol st (Symbol trade) of
                  None \<Rightarrow> st\<lparr>BySymbol := (BySymbol st)(Symbol trade \<mapsto> 0)\<rparr>
                | Some counter \<Rightarrow> st);
          st = st\<lparr>BySymbol := (BySymbol st)(Symbol trade \<mapsto> the (BySymbol st (Symbol trade)) + 1)\<rparr>
      in g\<lparr>stats := st\<rparr>)"

definition generateTrade :: "Generator \<Rightarrow> TraderProfile \<Rightarrow> Time \<Rightarrow> world \<Rightarrow> Trade \<times> world" where
  "generateTrade g profile timestamp w =
     (let (symbol, w1) = GetRandomSymbol profile w;
          (amount, w2) = GenerateAmount (patternGenerator g) profile w1;
          (price, w3) = GetPrice (patternGenerator g) symbol w2;
          (id, w4) = uuid_New w3;
          (ty, w5) = RandomTradeType (patternGenerator g) w4
      in (\<lparr>ID = id, UserID = TraderProfile.UserID profile, Symbol = symbol, Amount = amount,
            Price = price, Type = ty, Timestamp = timestamp\<rparr>, w5))"

text \<open>Output on the terminal (\<^verbatim>\<open>fmt.Printf\<close>) changes no state and is left out.\<close>

definition generateNormalTrade :: "Generator \<Rightarrow> world \<Rightarrow> error option \<times> Generator \<times> world" where
  "generateNormalTrade g w =
     (let (sel, w1) = SelectProfile (profiles g) (HFTRatio (Profiles (cfg g)))
                        (RegularRatio (Profiles (cfg g))) (CasualRatio (Profiles (cfg g))) w
      in case sel of
           None \<Rightarrow> (Some NoProfileSelected, g, w1)
         | Some profile \<Rightarrow>
             let (now, w2) = time_Now w1;
                 (trade, w3) = generateTrade g profile now w2;
                 (failed, client, w4) = PublishTradeToStream (redisClient g) trade w3;
                 g = g\<lparr>redisClient := client\<rparr>
             in if failed then (Some FailedToPublishTrade, g, w4)
                else (None, updateStats g trade profile False, w4))"

text \<open>The loop of \<^verbatim>\<open>generateFraudPattern\<close> that publishes the trades of a pattern.\<close>

fun publish_all ::
  "Generator \<Rightarrow> TraderProfile \<Rightarrow> Trade list \<Rightarrow> world \<Rightarrow> error option \<times> Generator \<times> world" where
  "publish_all g profile [] w = (None, g, w)"
| "publish_all g profile (trade # trades) w =
     (let (failed, client, w1) = PublishTradeToStream (redisClient g) trade w;
          g = g\<lparr>redisClient := client\<rparr>
      in if failed then (Some FailedToPublishFraudTrade, g, w1)
         else publish_all (updateStats g trade profile True) profile trades w1)"

definition generateFraudPattern :: "Generator \<Rightarrow> world \<Rightarrow> error option \<times> Generator \<times> world" where
  "generateFraudPattern g w =
     (let fraudType =
            (if FraudType (Generate (cfg g)) = ''WASH'' then WashTrade
             else if FraudType (Generate (cfg g)) = ''VELOCITY'' then VelocitySpike
             else if FraudType (Generate (cfg g)) = ''ANOMALY'' then Anomaly
             else AllFraud);
          (sel, w1) = SelectFraudProfile (profiles g) fraudType w
      in case sel of
           None \<Rightarrow> generateNormalTrade g w1
         | Some profile \<Rightarrow>
             let (baseTime, w2) = time_Now w1
             in if FraudPattern profile = WashTrade then
                  (let (trades, w3) = InjectWashTrade (patternGenerator g) profile baseTime w2
                   in publish_all g profile trades w3)
                else if FraudPattern profile = VelocitySpike then
                  (let (trades, w3) = InjectVelocitySpike (patternGenerator g) profile baseTime w2
                   in publish_all g profile trades w3)
                else if FraudPattern profile = Anomaly then
                  (let (trade, w3) = InjectAnomaly (patternGenerator g) profile baseTime w2
                   in publish_all g profile [trade] w3)
                else generateNormalTrade g w2)"

definition generateAndPublish :: "Generator \<Rightarrow> world \<Rightarrow> error option \<times> Generator \<times> world" where
  "generateAndPublish g w =
     (let (r, w1) = Float64 w
      in if r < FraudRate (Generate (cfg g)) then generateFraudPattern g w1
         else generateNormalTrade g w1)"

definition printFinalStats :: "Generator \<Rightarrow> error option" where
  "printFinalStats g = None"

text \<open>
  \<^verbatim>\<open>Run\<close> waits, in each round of its loop, for the cancellation of its context or for
  the next tick. The sequence of the events it receives is an argument; when the
  sequence is used up the loop is still waiting, and \<^verbatim>\<open>Run\<close> has not returned. The
  reporting task that runs beside the loop only reads the counters and is left out.
\<close>

datatype event = Cancel | Tick

datatype run_result = Waiting | Returned "error option"

definition init_counters :: "Generator \<Rightarrow> Generator" where
  "init_counters g =
     fold (\<lambda>profile g. g\<lparr>stats := (stats g)\<lparr>ByProfile :=
                              (ByProfile (stats g))(TraderProfile.Type profile \<mapsto> 0)\<rparr>\<rparr>)
       (profiles g) g"

definition set_deadline :: "Generator \<Rightarrow> world \<Rightarrow> Time \<times> world" where
  "set_deadline g w =
     (if Duration (Generate (cfg g)) > 0
      then (let (now, w1) = time_Now w in (Add now (Duration (Generate (cfg g))), w1))
      else (zeroTime, w))"

fun run_loop :: "Time \<Rightarrow> event list \<Rightarrow> Generator \<Rightarrow> world \<Rightarrow> run_result \<times> Generator \<times> world" where
  "run_loop deadline [] g w = (Waiting, g, w)"
| "run_loop deadline (Cancel # events) g w = (Returned (printFinalStats g), g, w)"
| "run_loop deadline (Tick # events) g w =
     (if IsZero deadline then
        (let (err, g1, w1) = generateAndPublish g w in run_loop deadline events g1 w1)
      else
        (let (now, w1) = time_Now w
         in if After now deadline then (Returned (printFinalStats g), g, w1)
            else (let (err, g1, w2) = generateAndPublish g w1 in run_loop deadline events g1 w2)))"

definition Run :: "Generator \<Rightarrow> event list \<Rightarrow> world \<Rightarrow> run_result \<times> Generator \<times> world" where
  "Run g events w =
     (let g = init_counters g;
          tickInterval = Second div TPS (Generate (cfg g));
          (deadline, w1) = set_deadline g w
      in run_loop deadline events g w1)"

subsection \<open>Notions used in the statements\<close>


text \<open>Concrete answers of the outside world, for the examples.\<close>

definition epoch :: Time where
  "epoch = \<lparr>UnixNano = 0, ZoneOffset = 0\<rparr>"

definition reply :: "real \<Rightarrow> nat \<Rightarrow> answer" where
  "reply u k = \<lparr>f64 = u, i63 = k, norm = 0, uuid = 0, clock = epoch, publish_fails = False\<rparr>"

definition steady :: "real \<Rightarrow> nat \<Rightarrow> world" where
  "steady u k = sconst (reply u k)"

text \<open>
  The settings when the program is started without arguments: the defaults that the
  command line declares for its flags; the three ratios have no flag and read as 0.
\<close>

definition flag_defaults :: Viper where
  "flag_defaults =
     \<lparr>redis_host = ''localhost'', redis_port = 6379, redis_password = [], redis_db = 0,
      generate_tps = 100, generate_duration = 5 * Minute, generate_fraud_rate = 0.05,
      generate_fraud_type = ''ALL'', generate_verbose = False,
      generate_stats_interval = 10 * Second,
      profiles_hft_ratio = 0, profiles_regular_ratio = 0, profiles_casual_ratio = 0\<rparr>"

definition default_config :: Config where
  "default_config =
     \<lparr>Redis = \<lparr>Host = ''localhost'', Port = 6379, Password = [], DB = 0\<rparr>,
      Generate = \<lparr>TPS = 100, Duration = 5 * Minute, FraudRate = 0.05, FraudType = ''ALL'',
                  Verbose = False, StatsInterval = 10 * Second\<rparr>,
      Profiles = \<lparr>HFTRatio = 0.20, RegularRatio = 0.70, CasualRatio = 0.10\<rparr>\<rparr>"

definition default_generator :: Generator where
  "default_generator = fst (NewGenerator default_config [] (steady 0.5 0))"

text \<open>
  The symbol that the first profile of the catalog gets in the exploration branch
  (the uniform draw is 0.9) when the raw integer draw is \<open>k\<close>.
\<close>

definition exploration_outcome :: "nat \<Rightarrow> string" where
  "exploration_outcome k = fst (GetRandomSymbol (GetDefaultProfiles ! 0) (steady 0.9 k))"

text \<open>The filter that \<^verbatim>\<open>generateFraudPattern\<close> reads off the configuration.\<close>

definition configured_fraud_type :: "Generator \<Rightarrow> FraudType" where
  "configured_fraud_type g =
     (if FraudType (Generate (cfg g)) = ''WASH'' then WashTrade
      else if FraudType (Generate (cfg g)) = ''VELOCITY'' then VelocitySpike
      else if FraudType (Generate (cfg g)) = ''ANOMALY'' then Anomaly
      else AllFraud)"

text \<open>A sequence of calls of \<^verbatim>\<open>updateStats\<close>, one for each recorded trade.\<close>

definition record_trades :: "Generator \<Rightarrow> (Trade \<times> TraderProfile \<times> bool) list \<Rightarrow> Generator" where
  "record_trades g rs = fold (\<lambda>(trade, profile, isFraud) g. updateStats g trade profile isFraud) rs g"

text \<open>The sum of the per-category counters, each read as a signed 64-bit number.\<close>

definition category_total :: "Statistics \<Rightarrow> int" where
  "category_total st = (\<Sum>k \<in> dom (ByProfile st). sint (the (ByProfile st k)))"

text \<open>A world whose clock shows the epoch at the first reading and six minutes later after that.\<close>

definition clock_reply :: "Time \<Rightarrow> answer" where
  "clock_reply t = \<lparr>f64 = 0.5, i63 = 0, norm = 0, uuid = 0, clock = t, publish_fails = False\<rparr>"

definition six_minutes_later :: world where
  "six_minutes_later = clock_reply epoch ## sconst (clock_reply (Add epoch (6 * Minute)))"

text \<open>A generator whose catalog has lost its three fraud profiles.\<close>

definition no_fraud_generator :: Generator where
  "no_fraud_generator = default_generator\<lparr>profiles := take 11 GetDefaultProfiles\<rparr>"

text \<open>The default generator with the fraud type of its configuration replaced.\<close>

definition fraud_generator :: "string \<Rightarrow> Generator" where
  "fraud_generator ft =
     default_generator\<lparr>cfg := (cfg default_generator)\<lparr>Generate :=
        (Generate (cfg default_generator))\<lparr>FraudType := ft\<rparr>\<rparr>\<rparr>"

text \<open>A trade and a short record of calls of \<^verbatim>\<open>updateStats\<close>, for the examples.\<close>

definition sample_trade :: Trade where
  "sample_trade = \<lparr>ID = 0, UserID = ''HFT_001'', Symbol = ''AAPL'', Amount = 75000,
                    Price = 175.5, Type = TradeTypeBuy, Timestamp = epoch\<rparr>"

definition sample_records :: "(Trade \<times> TraderProfile \<times> bool) list" where
  "sample_records =
     [(sample_trade, GetDefaultProfiles ! 0, False), (sample_trade, GetDefaultProfiles ! 11, True),
      (sample_trade, GetDefaultProfiles ! 0, False)]"

text \<open>The default generator with the run duration of its configuration set to 0.\<close>

definition unbounded_generator :: Generator where
  "unbounded_generator =
     default_generator\<lparr>cfg := (cfg default_generator)\<lparr>Generate :=
        (Generate (cfg default_generator))\<lparr>Duration := 0\<rparr>\<rparr>\<rparr>"

section \<open>Properties\<close>

subsection \<open>The answers of the outside world\<close>


lemma valid_world_stl: "valid_world w \<Longrightarrow> valid_world (stl w)"
  by (auto simp: valid_world_def dest: stl_sset)





lemma time_Now_valid: "valid_world w \<Longrightarrow> time_Now w = (z, w') \<Longrightarrow> valid_world w'"
  by (auto simp: time_Now_def valid_world_stl)







subsection \<open>Amounts\<close>



subsection \<open>The velocity loop\<close>


subsection \<open>Wash trades\<close>






subsection \<open>Velocity spikes\<close>





subsection \<open>Anomalies\<close>






subsection \<open>Positive amounts and prices\<close>

lemma LoadConfig_defaults: "LoadConfig flag_defaults = Inr default_config"
  by (simp add: LoadConfig_def flag_defaults_def default_config_def Validate_def Let_def
        Minute_def Second_def)


lemma default_generator_profiles: "profiles default_generator = GetDefaultProfiles"
  by (simp add: default_generator_def NewGenerator_def time_Now_def)

lemma default_catalog_sizes_positive:
  "list_all (\<lambda>p. 0 < AvgTradeSize p) GetDefaultProfiles"
  by (simp add: GetDefaultProfiles_def)






subsection \<open>Symbols\<close>

lemma pool_counts:
  "count_list (BlueChipSymbols @ PopularSymbols @ ETFSymbols) s =
     (if s \<in> set PopularSymbols then 2
      else if s \<in> set BlueChipSymbols \<union> set ETFSymbols then 1 else 0)"
  by (simp add: BlueChipSymbols_def PopularSymbols_def ETFSymbols_def)

text \<open>
  C8, as claimed, fails: in the exploration branch the 18 possible values of the index
  draw give the symbol AAPL twice and the symbol MSFT once, so the draw is not uniform
  on the union of the three lists taken as a set.
\<close>

theorem exploration_not_uniform_on_union:
  "count_list (map exploration_outcome [0..<18]) ''AAPL'' = 2 \<and>
   count_list (map exploration_outcome [0..<18]) ''MSFT'' = 1"
  by (simp add: exploration_outcome_def GetRandomSymbol_def Float64_def Intn_def steady_def
        reply_def GetDefaultProfiles_def BlueChipSymbols_def PopularSymbols_def ETFSymbols_def
        Let_def upt_rec)

text \<open>
  C8, amended: a profile without typical symbols gets AAPL. Otherwise one uniform draw
  decides: below 0.8 the symbol is the entry of the typical list at a drawn index;
  from 0.8 on it is the entry at a drawn index of the concatenation of the blue-chip,
  popular and ETF lists, which has 18 entries and holds every popular symbol twice and
  every other symbol of the three lists once.
\<close>

theorem GetRandomSymbol_draw:
  "let typical = TypicalSymbols p;
       pool = BlueChipSymbols @ PopularSymbols @ ETFSymbols;
       u = fst (Float64 w);
       w1 = snd (Float64 w) in
     fst (GetRandomSymbol p w) =
       (if typical = [] then ''AAPL''
        else if u < 0.8 then typical ! fst (Intn (length typical) w1)
        else pool ! fst (Intn (length pool) w1)) \<and>
     (typical \<noteq> [] \<longrightarrow> u < 0.8 \<longrightarrow> fst (GetRandomSymbol p w) \<in> set typical) \<and>
     (typical \<noteq> [] \<longrightarrow> \<not> u < 0.8 \<longrightarrow>
        fst (GetRandomSymbol p w) \<in> set BlueChipSymbols \<union> set PopularSymbols \<union> set ETFSymbols) \<and>
     length pool = 18 \<and>
     (\<forall>s. count_list pool s =
        (if s \<in> set PopularSymbols then 2
         else if s \<in> set BlueChipSymbols \<union> set ETFSymbols then 1 else 0))"
proof -
  let ?pool = "BlueChipSymbols @ PopularSymbols @ ETFSymbols"
  have len: "length ?pool = 18"
    by (simp add: BlueChipSymbols_def PopularSymbols_def ETFSymbols_def)
  have eq: "fst (GetRandomSymbol p w) =
       (if TypicalSymbols p = [] then ''AAPL''
        else if fst (Float64 w) < 0.8
          then TypicalSymbols p ! fst (Intn (length (TypicalSymbols p)) (snd (Float64 w)))
        else ?pool ! fst (Intn (length ?pool) (snd (Float64 w))))"
    by (simp add: GetRandomSymbol_def Let_def split: prod.split)
  have t: "fst (GetRandomSymbol p w) \<in> set (TypicalSymbols p)"
    if "TypicalSymbols p \<noteq> []" "fst (Float64 w) < 0.8"
    using that unfolding eq by (simp add: Intn_def)
  have "fst (Intn (length ?pool) (snd (Float64 w))) < length ?pool"
    unfolding len by (simp add: Intn_def)
  then have "?pool ! fst (Intn (length ?pool) (snd (Float64 w))) \<in> set ?pool"
    by (rule nth_mem)
  then have e: "fst (GetRandomSymbol p w)
                  \<in> set BlueChipSymbols \<union> set PopularSymbols \<union> set ETFSymbols"
    if "TypicalSymbols p \<noteq> []" "\<not> fst (Float64 w) < 0.8"
    using that unfolding eq by simp
  show ?thesis unfolding Let_def using eq t e len pool_counts by blast
qed

theorem GetRandomSymbol_draw_witness:
  "TypicalSymbols ((GetDefaultProfiles ! 0)\<lparr>TypicalSymbols := []\<rparr>) = [] \<and>
   fst (GetRandomSymbol ((GetDefaultProfiles ! 0)\<lparr>TypicalSymbols := []\<rparr>) (steady 0.5 1)) = ''AAPL'' \<and>
   TypicalSymbols (GetDefaultProfiles ! 0) \<noteq> [] \<and>
   fst (Float64 (steady 0.5 1)) < 0.8 \<and>
   fst (GetRandomSymbol (GetDefaultProfiles ! 0) (steady 0.5 1))
     \<in> set (TypicalSymbols (GetDefaultProfiles ! 0)) \<and>
   \<not> fst (Float64 (steady 0.9 1)) < 0.8 \<and>
   fst (GetRandomSymbol (GetDefaultProfiles ! 0) (steady 0.9 1))
     \<in> set BlueChipSymbols \<union> set PopularSymbols \<union> set ETFSymbols"
proof -
  have e: "TypicalSymbols ((GetDefaultProfiles ! 0)\<lparr>TypicalSymbols := []\<rparr>) = []" by simp
  have n: "TypicalSymbols (GetDefaultProfiles ! 0) \<noteq> []"
    by (simp add: GetDefaultProfiles_def BlueChipSymbols_def)
  have u: "fst (Float64 (steady 0.5 1)) < 0.8" "\<not> fst (Float64 (steady 0.9 1)) < 0.8"
    by (simp_all add: Float64_def steady_def reply_def)
  note t = GetRandomSymbol_draw [unfolded Let_def]
  have c1: "fst (GetRandomSymbol ((GetDefaultProfiles ! 0)\<lparr>TypicalSymbols := []\<rparr>) (steady 0.5 1))
              = ''AAPL''"
    using conjunct1 [OF t[of "(GetDefaultProfiles ! 0)\<lparr>TypicalSymbols := []\<rparr>" "steady 0.5 1"]]
    by (simp only: e simp_thms if_True)
  have c2: "fst (GetRandomSymbol (GetDefaultProfiles ! 0) (steady 0.5 1))
              \<in> set (TypicalSymbols (GetDefaultProfiles ! 0))"
    using t[of "GetDefaultProfiles ! 0" "steady 0.5 1"] n u(1) by blast
  have c3: "fst (GetRandomSymbol (GetDefaultProfiles ! 0) (steady 0.9 1))
              \<in> set BlueChipSymbols \<union> set PopularSymbols \<union> set ETFSymbols"
    using t[of "GetDefaultProfiles ! 0" "steady 0.9 1"] n u(2) by blast
  show ?thesis using e n u c1 c2 c3 by (intro conjI)
qed

subsection \<open>Selection of a fraud profile\<close>

lemma SelectFraudProfile_None:
  "fst (SelectFraudProfile ps ft w) = None \<longleftrightarrow>
     filter (\<lambda>p. TraderProfile.Type p = FraudTrader \<and> (ft = AllFraud \<or> FraudPattern p = ft)) ps = []"
  by (simp add: SelectFraudProfile_def Let_def split: prod.split)

lemma SelectFraudProfile_None_world:
  "fst (SelectFraudProfile ps ft w) = None \<Longrightarrow> SelectFraudProfile ps ft w = (None, w)"
  by (simp add: SelectFraudProfile_def Let_def split: prod.splits if_splits)

lemma SelectFraudProfile_Some:
  assumes "fst (SelectFraudProfile ps ft w) = Some p"
  shows "p \<in> set ps \<and> TraderProfile.Type p = FraudTrader \<and> (ft = AllFraud \<or> FraudPattern p = ft)"
proof -
  let ?fs = "filter (\<lambda>p. TraderProfile.Type p = FraudTrader \<and> (ft = AllFraud \<or> FraudPattern p = ft)) ps"
  have ne: "0 < length ?fs" and p: "p = ?fs ! fst (Intn (length ?fs) w)"
    using assms by (simp_all add: SelectFraudProfile_def Let_def split: prod.splits if_splits)
  have "fst (Intn (length ?fs) w) < length ?fs" using ne by (simp add: Intn_def)
  then have "p \<in> set ?fs" unfolding p by (rule nth_mem)
  then show ?thesis by simp
qed

text \<open>
  C9: \<^verbatim>\<open>SelectFraudProfile\<close> returns nothing exactly when no profile of the catalog is
  a fraud profile that matches the filter (the filter ALL matches every fraud profile);
  a profile it returns is such a profile of the catalog; and when it returns nothing
  for the configured filter, the fraud branch of the engine does what the normal
  branch does.
\<close>

theorem SelectFraudProfile_none_iff:
  "(fst (SelectFraudProfile ps ft w) = None \<longleftrightarrow>
      \<not> (\<exists>p \<in> set ps. TraderProfile.Type p = FraudTrader \<and> (ft = AllFraud \<or> FraudPattern p = ft))) \<and>
   (\<forall>p. fst (SelectFraudProfile ps ft w) = Some p \<longrightarrow>
      p \<in> set ps \<and> TraderProfile.Type p = FraudTrader \<and> (ft = AllFraud \<or> FraudPattern p = ft)) \<and>
   (fst (SelectFraudProfile (profiles g) (configured_fraud_type g) w) = None \<longrightarrow>
      generateFraudPattern g w = generateNormalTrade g w)"
proof (intro conjI allI impI)
  show "fst (SelectFraudProfile ps ft w) = None \<longleftrightarrow>
      \<not> (\<exists>p \<in> set ps. TraderProfile.Type p = FraudTrader \<and> (ft = AllFraud \<or> FraudPattern p = ft))"
    unfolding SelectFraudProfile_None by (simp add: filter_empty_conv)
next
  fix p assume "fst (SelectFraudProfile ps ft w) = Some p"
  then have s: "p \<in> set ps \<and> TraderProfile.Type p = FraudTrader \<and>
                (ft = AllFraud \<or> FraudPattern p = ft)"
    by (rule SelectFraudProfile_Some)
  show "p \<in> set ps" using s by simp
  show "TraderProfile.Type p = FraudTrader" using s by simp
  show "ft = AllFraud \<or> FraudPattern p = ft" using s by simp
next
  assume "fst (SelectFraudProfile (profiles g) (configured_fraud_type g) w) = None"
  then have "SelectFraudProfile (profiles g) (configured_fraud_type g) w = (None, w)"
    by (rule SelectFraudProfile_None_world)
  then show "generateFraudPattern g w = generateNormalTrade g w"
    by (simp add: generateFraudPattern_def configured_fraud_type_def)
qed

theorem SelectFraudProfile_none_iff_witness:
  "\<not> (\<exists>p \<in> set (take 11 GetDefaultProfiles).
         TraderProfile.Type p = FraudTrader \<and> (AllFraud = AllFraud \<or> FraudPattern p = AllFraud)) \<and>
   fst (SelectFraudProfile (take 11 GetDefaultProfiles) AllFraud (steady 0.5 0)) = None \<and>
   fst (SelectFraudProfile (profiles no_fraud_generator)
          (configured_fraud_type no_fraud_generator) (steady 0.5 0)) = None \<and>
   generateFraudPattern no_fraud_generator (steady 0.5 0)
     = generateNormalTrade no_fraud_generator (steady 0.5 0) \<and>
   fst (SelectFraudProfile GetDefaultProfiles WashTrade (steady 0.5 0))
     = Some (GetDefaultProfiles ! 11) \<and>
   GetDefaultProfiles ! 11 \<in> set GetDefaultProfiles \<and>
   TraderProfile.Type (GetDefaultProfiles ! 11) = FraudTrader \<and>
   (WashTrade = AllFraud \<or> FraudPattern (GetDefaultProfiles ! 11) = WashTrade)"
proof -
  have n: "\<not> (\<exists>p \<in> set (take 11 GetDefaultProfiles).
         TraderProfile.Type p = FraudTrader \<and> (AllFraud = AllFraud \<or> FraudPattern p = AllFraud))"
    by (simp add: GetDefaultProfiles_def HFTTrader_def RegularTrader_def CasualTrader_def
          FraudTrader_def)
  have g: "profiles no_fraud_generator = take 11 GetDefaultProfiles"
    "configured_fraud_type no_fraud_generator = AllFraud"
    by (simp_all add: no_fraud_generator_def default_generator_def NewGenerator_def time_Now_def
          configured_fraud_type_def default_config_def)
  have s: "fst (SelectFraudProfile GetDefaultProfiles WashTrade (steady 0.5 0))
             = Some (GetDefaultProfiles ! 11)"
    by (simp add: SelectFraudProfile_def GetDefaultProfiles_def Intn_def steady_def reply_def
          HFTTrader_def RegularTrader_def CasualTrader_def FraudTrader_def
          NoFraud_def WashTrade_def VelocitySpike_def Anomaly_def AllFraud_def)
  note t1 = SelectFraudProfile_none_iff
    [of "take 11 GetDefaultProfiles" AllFraud "steady 0.5 0" no_fraud_generator, unfolded g]
  note t2 = SelectFraudProfile_none_iff
    [of GetDefaultProfiles WashTrade "steady 0.5 0" no_fraud_generator]
  have c1: "fst (SelectFraudProfile (take 11 GetDefaultProfiles) AllFraud (steady 0.5 0)) = None"
    using t1 n by blast
  have c2: "generateFraudPattern no_fraud_generator (steady 0.5 0)
              = generateNormalTrade no_fraud_generator (steady 0.5 0)"
    using t1 c1 by blast
  have c3: "GetDefaultProfiles ! 11 \<in> set GetDefaultProfiles \<and>
            TraderProfile.Type (GetDefaultProfiles ! 11) = FraudTrader \<and>
            (WashTrade = AllFraud \<or> FraudPattern (GetDefaultProfiles ! 11) = WashTrade)"
    using t2 s by blast
  show ?thesis using n c1 c2 c3 s unfolding g by (intro conjI) blast+
qed

subsection \<open>The fraud counter\<close>

lemma updateStats_fields:
  "cfg (updateStats g trade profile isFraud) = cfg g"
  "redisClient (updateStats g trade profile isFraud) = redisClient g"
  "profiles (updateStats g trade profile isFraud) = profiles g"
  "patternGenerator (updateStats g trade profile isFraud) = patternGenerator g"
  by (simp_all add: updateStats_def Let_def)

lemma updateStats_counters:
  "TotalTrades (stats (updateStats g trade profile isFraud)) = TotalTrades (stats g) + 1"
  "FraudPatterns (stats (updateStats g trade profile isFraud)) =
     FraudPatterns (stats g) + (if isFraud then 1 else 0)"
  by (simp_all add: updateStats_def Let_def split: option.split)

lemma publish_all_ok:
  "fst (publish_all g profile trades w) = None \<Longrightarrow>
     redisClient (fst (snd (publish_all g profile trades w))) = redisClient g @ trades \<and>
     FraudPatterns (stats (fst (snd (publish_all g profile trades w)))) =
       FraudPatterns (stats g) + of_nat (length trades) \<and>
     TotalTrades (stats (fst (snd (publish_all g profile trades w)))) =
       TotalTrades (stats g) + of_nat (length trades)"
proof (induction trades arbitrary: g w)
  case Nil
  then show ?case by simp
next
  case (Cons trade trades)
  show ?case
  proof (cases "publish_fails (shd w)")
    case True
    with Cons.prems show ?thesis by (simp add: PublishTradeToStream_def)
  next
    case False
    let ?g = "updateStats (g\<lparr>redisClient := redisClient g @ [trade]\<rparr>) trade profile True"
    have e: "publish_all g profile (trade # trades) w = publish_all ?g profile trades (stl w)"
      using False by (simp add: PublishTradeToStream_def)
    from Cons.prems have "fst (publish_all ?g profile trades (stl w)) = None" unfolding e .
    from Cons.IH[OF this] show ?thesis unfolding e
      by (simp add: updateStats_fields updateStats_counters)
  qed
qed

lemma velocity_loop_length:
  "length (fst (velocity_loop pg profile baseTime symbol basePrice numTrades i w)) = numTrades - i"
proof (induction pg profile baseTime symbol basePrice numTrades i w rule: velocity_loop.induct)
  case (1 pg profile baseTime symbol basePrice numTrades i w)
  show ?case
  proof (cases "i < numTrades")
    case False
    then show ?thesis
      by (simp add: velocity_loop.simps[of pg profile baseTime symbol basePrice numTrades i w])
  next
    case True
    obtain amount w1 where a: "GenerateAmount pg profile w = (amount, w1)" by force
    obtain r w2 where r: "Float64 w1 = (r, w2)" by force
    obtain id w3 where u: "uuid_New w2 = (id, w3)" by force
    obtain ty w4 where t: "RandomTradeType pg w3 = (ty, w4)" by force
    note ih = "1.IH"[OF True a[symmetric] refl r[symmetric] refl refl u[symmetric] refl
                 t[symmetric] refl refl]
    obtain rest w5 where l:
      "velocity_loop pg profile baseTime symbol basePrice numTrades (i + 1) w4 = (rest, w5)"
      by force
    show ?thesis using ih True l
      by (simp add: velocity_loop.simps[of pg profile baseTime symbol basePrice numTrades i w]
            a r u t)
  qed
qed

lemma InjectVelocitySpike_length:
  "10 \<le> length (fst (InjectVelocitySpike pg profile baseTime w)) \<and>
   length (fst (InjectVelocitySpike pg profile baseTime w)) \<le> 20"
proof -
  obtain k w1 where a1: "Intn 11 w = (k, w1)" by force
  obtain symbol w2 where a2: "GetRandomSymbol profile w1 = (symbol, w2)" by force
  obtain basePrice w3 where a3: "GetPrice pg symbol w2 = (basePrice, w3)" by force
  have "k < 11" using a1 by (auto simp: Intn_def)
  then show ?thesis
    by (simp add: InjectVelocitySpike_def velocity_loop_length a1 a2 a3)
qed

lemma InjectWashTrade_length: "length (fst (InjectWashTrade pg profile baseTime w)) = 2"
  by (simp add: InjectWashTrade_def split: prod.split)

lemma fraud_patterns_distinct:
  "WashTrade \<noteq> VelocitySpike" "WashTrade \<noteq> Anomaly" "VelocitySpike \<noteq> Anomaly"
  "VelocitySpike \<noteq> WashTrade" "Anomaly \<noteq> WashTrade" "Anomaly \<noteq> VelocitySpike"
  by (simp_all add: WashTrade_def VelocitySpike_def Anomaly_def)

lemma generateFraudPattern_selected:
  assumes "fst (SelectFraudProfile (profiles g) (configured_fraud_type g) w) = Some profile"
  shows "generateFraudPattern g w =
     (let w1 = snd (SelectFraudProfile (profiles g) (configured_fraud_type g) w);
          baseTime = fst (time_Now w1); w2 = snd (time_Now w1)
      in if FraudPattern profile = WashTrade then
           publish_all g profile
             (fst (InjectWashTrade (patternGenerator g) profile baseTime w2))
             (snd (InjectWashTrade (patternGenerator g) profile baseTime w2))
         else if FraudPattern profile = VelocitySpike then
           publish_all g profile
             (fst (InjectVelocitySpike (patternGenerator g) profile baseTime w2))
             (snd (InjectVelocitySpike (patternGenerator g) profile baseTime w2))
         else if FraudPattern profile = Anomaly then
           publish_all g profile
             [fst (InjectAnomaly (patternGenerator g) profile baseTime w2)]
             (snd (InjectAnomaly (patternGenerator g) profile baseTime w2))
         else generateNormalTrade g w2)"
proof -
  obtain w1 where s: "SelectFraudProfile (profiles g) (configured_fraud_type g) w = (Some profile, w1)"
    using assms by (cases "SelectFraudProfile (profiles g) (configured_fraud_type g) w") simp
  show ?thesis
    using s by (simp add: generateFraudPattern_def configured_fraud_type_def Let_def
                  split: prod.split)
qed

text \<open>
  C10: when the fraud branch has selected a profile with one of the three patterns and
  returns without an error, the sink has received the trades of the pattern and the
  fraud counter has grown by their number (modulo \<open>2^64\<close>): 2 for a wash trade,
  between 10 and 20 for a velocity spike, 1 for an anomaly.
\<close>

theorem fraud_counter_counts_trades:
  assumes "fst (SelectFraudProfile (profiles g) (configured_fraud_type g) w) = Some profile"
    and "FraudPattern profile = WashTrade \<or> FraudPattern profile = VelocitySpike \<or>
         FraudPattern profile = Anomaly"
    and "fst (generateFraudPattern g w) = None"
  shows "\<exists>trades.
           redisClient (fst (snd (generateFraudPattern g w))) = redisClient g @ trades \<and>
           FraudPatterns (stats (fst (snd (generateFraudPattern g w)))) =
             FraudPatterns (stats g) + of_nat (length trades) \<and>
           (FraudPattern profile = WashTrade \<longrightarrow> length trades = 2) \<and>
           (FraudPattern profile = VelocitySpike \<longrightarrow> 10 \<le> length trades \<and> length trades \<le> 20) \<and>
           (FraudPattern profile = Anomaly \<longrightarrow> length trades = 1)"
proof -
  define w2 where
    "w2 = snd (time_Now (snd (SelectFraudProfile (profiles g) (configured_fraud_type g) w)))"
  define baseTime where
    "baseTime = fst (time_Now (snd (SelectFraudProfile (profiles g) (configured_fraud_type g) w)))"
  note sel = generateFraudPattern_selected[OF assms(1), unfolded Let_def,
      folded w2_def baseTime_def]
  from assms(2) consider (wash) "FraudPattern profile = WashTrade"
    | (velocity) "FraudPattern profile = VelocitySpike"
    | (anomaly) "FraudPattern profile = Anomaly" by blast
  then show ?thesis
  proof cases
    case wash
    let ?ts = "fst (InjectWashTrade (patternGenerator g) profile baseTime w2)"
    let ?w = "snd (InjectWashTrade (patternGenerator g) profile baseTime w2)"
    have e: "generateFraudPattern g w = publish_all g profile ?ts ?w"
      using sel wash by simp
    have "fst (publish_all g profile ?ts ?w) = None" using assms(3) unfolding e .
    from publish_all_ok[OF this] InjectWashTrade_length[of "patternGenerator g" profile baseTime w2]
    show ?thesis unfolding e using wash fraud_patterns_distinct by (intro exI[of _ ?ts]) simp
  next
    case velocity
    let ?ts = "fst (InjectVelocitySpike (patternGenerator g) profile baseTime w2)"
    let ?w = "snd (InjectVelocitySpike (patternGenerator g) profile baseTime w2)"
    have e: "generateFraudPattern g w = publish_all g profile ?ts ?w"
      using sel velocity fraud_patterns_distinct by simp
    have "fst (publish_all g profile ?ts ?w) = None" using assms(3) unfolding e .
    from publish_all_ok[OF this]
      InjectVelocitySpike_length[of "patternGenerator g" profile baseTime w2]
    show ?thesis unfolding e using velocity fraud_patterns_distinct
      by (intro exI[of _ ?ts]) simp
  next
    case anomaly
    let ?ts = "[fst (InjectAnomaly (patternGenerator g) profile baseTime w2)]"
    let ?w = "snd (InjectAnomaly (patternGenerator g) profile baseTime w2)"
    have e: "generateFraudPattern g w = publish_all g profile ?ts ?w"
      using sel anomaly fraud_patterns_distinct by simp
    have "fst (publish_all g profile ?ts ?w) = None" using assms(3) unfolding e .
    from publish_all_ok[OF this]
    show ?thesis unfolding e using anomaly fraud_patterns_distinct
      by (intro exI[of _ ?ts]) simp
  qed
qed

lemmas catalog_eval = fraud_generator_def default_generator_def NewGenerator_def time_Now_def
          configured_fraud_type_def default_config_def SelectFraudProfile_def GetDefaultProfiles_def
          Intn_def steady_def reply_def
          HFTTrader_def RegularTrader_def CasualTrader_def FraudTrader_def
          NoFraud_def WashTrade_def VelocitySpike_def Anomaly_def AllFraud_def

lemma select_wash: "fst (SelectFraudProfile (profiles (fraud_generator ''WASH''))
           (configured_fraud_type (fraud_generator ''WASH'')) (steady 0.5 0))
        = Some (GetDefaultProfiles ! 11)"
    by (simp add: catalog_eval)

lemma select_velocity: "fst (SelectFraudProfile (profiles (fraud_generator ''VELOCITY''))
           (configured_fraud_type (fraud_generator ''VELOCITY'')) (steady 0.5 0))
        = Some (GetDefaultProfiles ! 12)"
    by (simp add: catalog_eval)

lemma select_anomaly: "fst (SelectFraudProfile (profiles (fraud_generator ''ANOMALY''))
           (configured_fraud_type (fraud_generator ''ANOMALY'')) (steady 0.5 0))
        = Some (GetDefaultProfiles ! 13)"
    by (simp add: catalog_eval)

lemma wash_run_ok: "fst (generateFraudPattern (fraud_generator ''WASH'') (steady 0.5 0)) = None"
  by (simp add: generateFraudPattern_def catalog_eval InjectWashTrade_def GetRandomSymbol_def
        Float64_def GenerateAmount_def NormFloat64_def GetPrice_def uuid_New_def
        PublishTradeToStream_def Let_def)

lemma anomaly_run_ok: "fst (generateFraudPattern (fraud_generator ''ANOMALY'') (steady 0.5 0)) = None"
  by (simp add: generateFraudPattern_def catalog_eval InjectAnomaly_def GetRandomSymbol_def
        Float64_def GenerateAmount_def NormFloat64_def GetPrice_def uuid_New_def
        RandomTradeType_def PublishTradeToStream_def Let_def)


lemma steady_stl: "stl (steady u k) = steady u k"
  by (simp add: steady_def)

lemma primitives_still:
  assumes "stl w = w"
  shows "snd (Float64 w) = w" "snd (Intn n w) = w" "snd (NormFloat64 w) = w"
    "snd (uuid_New w) = w" "snd (time_Now w) = w"
    "snd (GenerateAmount pg p w) = w" "snd (RandomTradeType pg w) = w"
    "snd (GetPrice pg s w) = w" "snd (GetRandomSymbol p w) = w"
  using assms
  by (simp_all add: Float64_def Intn_def NormFloat64_def uuid_New_def time_Now_def
        GenerateAmount_def RandomTradeType_def GetPrice_def GetRandomSymbol_def Let_def
        split: prod.split)

lemma SelectFraudProfile_still: "stl w = w \<Longrightarrow> snd (SelectFraudProfile ps ft w) = w"
  by (simp add: SelectFraudProfile_def Intn_def Let_def)

lemma velocity_loop_still:
  "stl w = w \<Longrightarrow> snd (velocity_loop pg profile baseTime symbol basePrice numTrades i w) = w"
proof (induction pg profile baseTime symbol basePrice numTrades i w rule: velocity_loop.induct)
  case (1 pg profile baseTime symbol basePrice numTrades i w)
  note still = primitives_still[OF "1.prems"]
  show ?case
  proof (cases "i < numTrades")
    case False
    then show ?thesis
      by (simp add: velocity_loop.simps[of pg profile baseTime symbol basePrice numTrades i w])
  next
    case True
    obtain amount where a: "GenerateAmount pg profile w = (amount, w)"
      using still(6)[of pg profile] by (cases "GenerateAmount pg profile w") simp
    obtain r where r: "Float64 w = (r, w)" using still(1) by (cases "Float64 w") simp
    obtain id where u: "uuid_New w = (id, w)" using still(4) by (cases "uuid_New w") simp
    obtain ty where t: "RandomTradeType pg w = (ty, w)"
      using still(7)[of pg] by (cases "RandomTradeType pg w") simp
    note ih = "1.IH"[OF True a[symmetric] refl r[symmetric] refl refl u[symmetric] refl
                 t[symmetric] refl refl "1.prems"]
    obtain rest w5 where l:
      "velocity_loop pg profile baseTime symbol basePrice numTrades (i + 1) w = (rest, w5)"
      by force
    show ?thesis using ih True l
      by (simp add: velocity_loop.simps[of pg profile baseTime symbol basePrice numTrades i w]
            a r u t)
  qed
qed

lemma InjectVelocitySpike_still:
  assumes "stl w = w"
  shows "snd (InjectVelocitySpike pg profile baseTime w) = w"
proof -
  note still = primitives_still[OF assms]
  obtain k where a1: "Intn 11 w = (k, w)" using still(2)[of 11] by (cases "Intn 11 w") simp
  obtain symbol where a2: "GetRandomSymbol profile w = (symbol, w)"
    using still(9)[of profile] by (cases "GetRandomSymbol profile w") simp
  obtain basePrice where a3: "GetPrice pg symbol w = (basePrice, w)"
    using still(8)[of pg symbol] by (cases "GetPrice pg symbol w") simp
  show ?thesis by (simp add: InjectVelocitySpike_def a1 a2 a3 velocity_loop_still[OF assms])
qed

lemma publish_all_still:
  "stl w = w \<Longrightarrow> \<not> publish_fails (shd w) \<Longrightarrow> fst (publish_all g profile trades w) = None"
  by (induction trades arbitrary: g) (simp_all add: PublishTradeToStream_def)

lemma velocity_run_ok: "fst (generateFraudPattern (fraud_generator ''VELOCITY'') (steady 0.5 0)) = None"
proof -
  define g where "g = fraud_generator ''VELOCITY''"
  define W where "W = steady 0.5 0"
  have st: "stl W = W" unfolding W_def by (rule steady_stl)
  have w1: "snd (SelectFraudProfile (profiles g) (configured_fraud_type g) W) = W"
    using st by (rule SelectFraudProfile_still)
  have p: "FraudPattern (GetDefaultProfiles ! 12) = VelocitySpike"
    by (simp add: GetDefaultProfiles_def)
  have calm: "\<not> publish_fails (shd W)" by (simp add: W_def steady_def reply_def)
  have "fst (generateFraudPattern g W) = None"
    unfolding generateFraudPattern_selected[OF select_velocity[folded g_def W_def]] Let_def w1
      primitives_still(5)[OF st]
    using p fraud_patterns_distinct
    by (simp add: InjectVelocitySpike_still[OF st] publish_all_still[OF st calm])
  then show ?thesis unfolding g_def W_def .
qed

theorem fraud_counter_counts_trades_witness:
  "fst (SelectFraudProfile (profiles (fraud_generator ''WASH''))
          (configured_fraud_type (fraud_generator ''WASH'')) (steady 0.5 0))
     = Some (GetDefaultProfiles ! 11) \<and>
   FraudPattern (GetDefaultProfiles ! 11) = WashTrade \<and>
   fst (generateFraudPattern (fraud_generator ''WASH'') (steady 0.5 0)) = None \<and>
   (\<exists>trades.
      redisClient (fst (snd (generateFraudPattern (fraud_generator ''WASH'') (steady 0.5 0))))
        = redisClient (fraud_generator ''WASH'') @ trades \<and>
      FraudPatterns (stats (fst (snd (generateFraudPattern (fraud_generator ''WASH'') (steady 0.5 0)))))
        = FraudPatterns (stats (fraud_generator ''WASH'')) + of_nat (length trades) \<and>
      length trades = 2) \<and>
   fst (SelectFraudProfile (profiles (fraud_generator ''VELOCITY''))
          (configured_fraud_type (fraud_generator ''VELOCITY'')) (steady 0.5 0))
     = Some (GetDefaultProfiles ! 12) \<and>
   FraudPattern (GetDefaultProfiles ! 12) = VelocitySpike \<and>
   fst (generateFraudPattern (fraud_generator ''VELOCITY'') (steady 0.5 0)) = None \<and>
   (\<exists>trades.
      redisClient (fst (snd (generateFraudPattern (fraud_generator ''VELOCITY'') (steady 0.5 0))))
        = redisClient (fraud_generator ''VELOCITY'') @ trades \<and>
      FraudPatterns (stats (fst (snd (generateFraudPattern (fraud_generator ''VELOCITY'')
          (steady 0.5 0)))))
        = FraudPatterns (stats (fraud_generator ''VELOCITY'')) + of_nat (length trades) \<and>
      10 \<le> length trades \<and> length trades \<le> 20) \<and>
   fst (SelectFraudProfile (profiles (fraud_generator ''ANOMALY''))
          (configured_fraud_type (fraud_generator ''ANOMALY'')) (steady 0.5 0))
     = Some (GetDefaultProfiles ! 13) \<and>
   FraudPattern (GetDefaultProfiles ! 13) = Anomaly \<and>
   fst (generateFraudPattern (fraud_generator ''ANOMALY'') (steady 0.5 0)) = None \<and>
   (\<exists>trades.
      redisClient (fst (snd (generateFraudPattern (fraud_generator ''ANOMALY'') (steady 0.5 0))))
        = redisClient (fraud_generator ''ANOMALY'') @ trades \<and>
      FraudPatterns (stats (fst (snd (generateFraudPattern (fraud_generator ''ANOMALY'')
          (steady 0.5 0)))))
        = FraudPatterns (stats (fraud_generator ''ANOMALY'')) + of_nat (length trades) \<and>
      length trades = 1)"
proof -
  have pw: "FraudPattern (GetDefaultProfiles ! 11) = WashTrade"
    and pv: "FraudPattern (GetDefaultProfiles ! 12) = VelocitySpike"
    and pa: "FraudPattern (GetDefaultProfiles ! 13) = Anomaly"
    by (simp_all add: GetDefaultProfiles_def)
  have cw: "\<exists>trades.
      redisClient (fst (snd (generateFraudPattern (fraud_generator ''WASH'') (steady 0.5 0))))
        = redisClient (fraud_generator ''WASH'') @ trades \<and>
      FraudPatterns (stats (fst (snd (generateFraudPattern (fraud_generator ''WASH'') (steady 0.5 0)))))
        = FraudPatterns (stats (fraud_generator ''WASH'')) + of_nat (length trades) \<and>
      length trades = 2"
    using fraud_counter_counts_trades [OF select_wash _ wash_run_ok] pw by blast
  have cv: "\<exists>trades.
      redisClient (fst (snd (generateFraudPattern (fraud_generator ''VELOCITY'') (steady 0.5 0))))
        = redisClient (fraud_generator ''VELOCITY'') @ trades \<and>
      FraudPatterns (stats (fst (snd (generateFraudPattern (fraud_generator ''VELOCITY'')
          (steady 0.5 0)))))
        = FraudPatterns (stats (fraud_generator ''VELOCITY'')) + of_nat (length trades) \<and>
      10 \<le> length trades \<and> length trades \<le> 20"
    using fraud_counter_counts_trades [OF select_velocity _ velocity_run_ok] pv by blast
  have ca: "\<exists>trades.
      redisClient (fst (snd (generateFraudPattern (fraud_generator ''ANOMALY'') (steady 0.5 0))))
        = redisClient (fraud_generator ''ANOMALY'') @ trades \<and>
      FraudPatterns (stats (fst (snd (generateFraudPattern (fraud_generator ''ANOMALY'')
          (steady 0.5 0)))))
        = FraudPatterns (stats (fraud_generator ''ANOMALY'')) + of_nat (length trades) \<and>
      length trades = 1"
    using fraud_counter_counts_trades [OF select_anomaly _ anomaly_run_ok] pa by blast
  show ?thesis using select_wash pw wash_run_ok cw select_velocity pv velocity_run_ok cv select_anomaly pa anomaly_run_ok ca by (intro conjI)
qed

subsection \<open>Consistency of the statistics\<close>

lemma sint_of_nat_small:
  assumes "n < 2 ^ 63"
  shows "sint (of_nat n :: 64 word) = int n"
proof -
  have "sint (word_of_int (int n) :: 64 word) = signed_take_bit 63 (int n)"
    by (simp only: sint_sbintrunc') simp
  also have "\<dots> = int n"
  proof (rule signed_take_bit_int_eq_self)
    show "- (2 ^ 63) \<le> int n" by simp
    have "int n < int (2 ^ 63)" using assms by (simp only: of_nat_less_iff)
    then show "int n < 2 ^ 63" by simp
  qed
  finally show ?thesis by simp
qed

lemma updateStats_ByProfile:
  "ByProfile (stats (updateStats g trade profile isFraud)) k =
     (if k = TraderProfile.Type profile
      then map_option (\<lambda>c. c + 1) (ByProfile (stats g) k)
      else ByProfile (stats g) k)"
  by (simp add: updateStats_def Let_def split: option.split)

lemma record_trades_Cons:
  "record_trades g ((trade, profile, isFraud) # rs) =
     record_trades (updateStats g trade profile isFraud) rs"
  by (simp add: record_trades_def)

lemma record_trades_total:
  "TotalTrades (stats (record_trades g rs)) = TotalTrades (stats g) + of_nat (length rs)"
proof (induction rs arbitrary: g)
  case Nil
  then show ?case by (simp add: record_trades_def)
next
  case (Cons r rs)
  obtain trade profile isFraud where r: "r = (trade, profile, isFraud)" by (cases r)
  show ?case unfolding r record_trades_Cons Cons.IH
    by (simp add: updateStats_counters)
qed

lemma record_trades_ByProfile:
  "ByProfile (stats (record_trades g rs)) k =
     map_option (\<lambda>c. c + of_nat (length (filter (\<lambda>r. TraderProfile.Type (fst (snd r)) = k) rs)))
       (ByProfile (stats g) k)"
proof (induction rs arbitrary: g)
  case Nil
  then show ?case by (simp add: record_trades_def option.map_ident)
next
  case (Cons r rs)
  obtain trade profile isFraud where r: "r = (trade, profile, isFraud)" by (cases r)
  show ?case unfolding r record_trades_Cons Cons.IH
    by (cases "ByProfile (stats g) k") (auto simp: updateStats_ByProfile)
qed

lemma init_fold_ByProfile:
  "ByProfile (stats (fold (\<lambda>profile g. g\<lparr>stats := (stats g)\<lparr>ByProfile :=
                              (ByProfile (stats g))(TraderProfile.Type profile \<mapsto> 0)\<rparr>\<rparr>) ps g)) k =
     (if k \<in> TraderProfile.Type ` set ps then Some 0 else ByProfile (stats g) k)"
  by (induction ps arbitrary: g) auto

lemma init_fold_total:
  "TotalTrades (stats (fold (\<lambda>profile g. g\<lparr>stats := (stats g)\<lparr>ByProfile :=
                              (ByProfile (stats g))(TraderProfile.Type profile \<mapsto> 0)\<rparr>\<rparr>) ps g)) =
     TotalTrades (stats g)"
  by (induction ps arbitrary: g) auto

lemma init_fold_profiles:
  "profiles (fold (\<lambda>profile g. g\<lparr>stats := (stats g)\<lparr>ByProfile :=
                              (ByProfile (stats g))(TraderProfile.Type profile \<mapsto> 0)\<rparr>\<rparr>) ps g) =
     profiles g"
  by (induction ps arbitrary: g) auto

lemma started_counters:
  "ByProfile (stats (init_counters (fst (NewGenerator c client w)))) k =
     (if k \<in> TraderProfile.Type ` set GetDefaultProfiles then Some 0 else None)"
  "TotalTrades (stats (init_counters (fst (NewGenerator c client w)))) = 0"
  by (simp_all add: init_counters_def init_fold_ByProfile init_fold_total NewGenerator_def
        split: prod.split)

lemma sum_of_counts:
  assumes "finite D" and "\<forall>r \<in> set rs. f r \<in> D"
  shows "(\<Sum>k \<in> D. length (filter (\<lambda>r. f r = k) rs)) = length rs"
  using assms(2)
proof (induction rs)
  case Nil
  then show ?case by simp
next
  case (Cons r rs)
  have "(\<Sum>k \<in> D. length (filter (\<lambda>r. f r = k) (r # rs))) =
        (\<Sum>k \<in> D. (if f r = k then 1 else 0) + length (filter (\<lambda>r. f r = k) rs))"
    by (intro sum.cong) auto
  also have "\<dots> = (\<Sum>k \<in> D. if f r = k then 1 else 0) + (\<Sum>k \<in> D. length (filter (\<lambda>r. f r = k) rs))"
    by (rule sum.distrib)
  also have "(\<Sum>k \<in> D. if f r = k then 1 else 0) = (1::nat)"
    using assms(1) Cons.prems by (simp add: sum.delta')
  also have "(\<Sum>k \<in> D. length (filter (\<lambda>r. f r = k) rs)) = length rs"
    using Cons by simp
  finally show ?case by simp
qed

text \<open>
  C7: a generator is created and its per-category counters are initialised from the
  default catalog, as \<^verbatim>\<open>Run\<close> does. After N calls of \<^verbatim>\<open>updateStats\<close>, for trades
  of profiles whose categories occur in the catalog, and with N below \<open>2^63\<close>, the
  total-trade counter reads N and the per-category counters sum to N.
\<close>

theorem statistics_consistent:
  assumes "set (map (\<lambda>r. TraderProfile.Type (fst (snd r))) rs)
             \<subseteq> set (map TraderProfile.Type GetDefaultProfiles)"
    and "length rs < 2 ^ 63"
  shows "sint (TotalTrades (stats (record_trades (init_counters (fst (NewGenerator c client w))) rs)))
           = int (length rs) \<and>
         category_total (stats (record_trades (init_counters (fst (NewGenerator c client w))) rs))
           = int (length rs)"
proof -
  let ?g0 = "init_counters (fst (NewGenerator c client w))"
  let ?D = "TraderProfile.Type ` set GetDefaultProfiles"
  let ?cnt = "\<lambda>k. length (filter (\<lambda>r. TraderProfile.Type (fst (snd r)) = k) rs)"
  have fin: "finite ?D" by simp
  have total: "TotalTrades (stats (record_trades ?g0 rs)) = of_nat (length rs)"
    by (simp add: record_trades_total started_counters)
  have by_profile: "ByProfile (stats (record_trades ?g0 rs)) k =
                      (if k \<in> ?D then Some (of_nat (?cnt k)) else None)" for k
    unfolding record_trades_ByProfile started_counters by simp
  have dom: "dom (ByProfile (stats (record_trades ?g0 rs))) = ?D"
    by (auto simp: by_profile dom_def split: if_splits)
  have small: "?cnt k < 2 ^ 63" for k
    using length_filter_le[of "\<lambda>r. TraderProfile.Type (fst (snd r)) = k" rs] assms(2)
    by (rule le_less_trans)
  have "category_total (stats (record_trades ?g0 rs)) = (\<Sum>k \<in> ?D. int (?cnt k))"
    unfolding category_total_def dom
    by (intro sum.cong refl) (simp add: by_profile sint_of_nat_small[OF small])
  also have "\<dots> = int (\<Sum>k \<in> ?D. ?cnt k)" by simp
  also have "(\<Sum>k \<in> ?D. ?cnt k) = length rs"
  proof (rule sum_of_counts [OF fin])
    show "\<forall>r \<in> set rs. TraderProfile.Type (fst (snd r)) \<in> ?D" using assms(1) by auto
  qed
  finally have cat: "category_total (stats (record_trades ?g0 rs)) = int (length rs)" .
  show ?thesis unfolding total using cat sint_of_nat_small[OF assms(2)] by simp
qed

theorem statistics_consistent_witness:
  "set (map (\<lambda>r. TraderProfile.Type (fst (snd r))) sample_records)
     \<subseteq> set (map TraderProfile.Type GetDefaultProfiles) \<and>
   length sample_records < 2 ^ 63 \<and>
   sint (TotalTrades (stats (record_trades
      (init_counters (fst (NewGenerator default_config [] (steady 0.5 0)))) sample_records)))
     = int (length sample_records) \<and>
   category_total (stats (record_trades
      (init_counters (fst (NewGenerator default_config [] (steady 0.5 0)))) sample_records))
     = int (length sample_records)"
proof -
  have h: "set (map (\<lambda>r. TraderProfile.Type (fst (snd r))) sample_records)
     \<subseteq> set (map TraderProfile.Type GetDefaultProfiles)"
    by (simp add: sample_records_def GetDefaultProfiles_def)
  have n: "length sample_records < 2 ^ 63" by (simp add: sample_records_def)
  show ?thesis using h n statistics_consistent [OF h n] by (intro conjI) blast+
qed

subsection \<open>The run duration\<close>

lemma run_loop_no_deadline:
  "IsZero deadline \<Longrightarrow> Cancel \<notin> set events \<Longrightarrow> fst (run_loop deadline events g w) = Waiting"
proof (induction events arbitrary: g w)
  case Nil
  then show ?case by simp
next
  case (Cons e events)
  then have e: "e = Tick" and rest: "Cancel \<notin> set events" by (cases e; simp)+
  obtain err g1 w1 where s: "generateAndPublish g w = (err, g1, w1)"
    by (cases "generateAndPublish g w") auto
  show ?case using Cons.IH[OF Cons.prems(1) rest, of g1 w1] Cons.prems(1) by (simp add: e s)
qed

lemma init_counters_cfg: "cfg (init_counters g) = cfg g"
proof -
  have "cfg (fold (\<lambda>profile g. g\<lparr>stats := (stats g)\<lparr>ByProfile :=
                              (ByProfile (stats g))(TraderProfile.Type profile \<mapsto> 0)\<rparr>\<rparr>) ps g) = cfg g"
    for ps by (induction ps arbitrary: g) auto
  then show ?thesis by (simp add: init_counters_def)
qed

lemma Run_unbounded:
  assumes "Duration (Generate (cfg g)) = 0" and "Cancel \<notin> set events"
  shows "fst (Run g events w) = Waiting"
proof -
  have d: "set_deadline (init_counters g) w = (zeroTime, w)"
    using assms(1) by (simp add: set_deadline_def init_counters_cfg)
  have z: "IsZero zeroTime" by (simp add: IsZero_def)
  show ?thesis
    by (simp add: Run_def Let_def d run_loop_no_deadline[OF z assms(2)])
qed

text \<open>
  C5: \<^verbatim>\<open>Run\<close> itself sets no deadline for a duration of 0: the generator whose
  configuration has the duration 0 is still waiting after a tick at which the clock
  shows six minutes past its start. But \<^verbatim>\<open>LoadConfig\<close> replaces a duration of 0 by
  five minutes: the settings with the duration 0 load as the default configuration,
  and the generator so configured returns at that tick.
\<close>

theorem duration_zero_replaced_by_default:
  "fst (Run unbounded_generator [Tick] six_minutes_later) = Waiting \<and>
   LoadConfig (flag_defaults\<lparr>generate_duration := 0\<rparr>) = Inr default_config \<and>
   Duration (Generate default_config) = 5 * Minute \<and>
   cfg default_generator = default_config \<and>
   fst (Run default_generator [Tick] six_minutes_later) = Returned None"
proof -
  have u: "Duration (Generate (cfg unbounded_generator)) = 0"
    by (simp add: unbounded_generator_def)
  have a: "fst (Run unbounded_generator [Tick] six_minutes_later) = Waiting"
    by (rule Run_unbounded [OF u]) simp
  have b: "LoadConfig (flag_defaults\<lparr>generate_duration := 0\<rparr>) = Inr default_config"
    by (simp add: LoadConfig_def flag_defaults_def default_config_def Validate_def Let_def
          Minute_def Second_def)
  have c: "Duration (Generate default_config) = 5 * Minute" by (simp add: default_config_def)
  have d: "cfg default_generator = default_config"
    by (simp add: default_generator_def NewGenerator_def time_Now_def)
  have dl: "set_deadline (init_counters default_generator) six_minutes_later =
              (Add epoch (5 * Minute), sconst (clock_reply (Add epoch (6 * Minute))))"
    by (simp add: set_deadline_def init_counters_cfg d c Minute_def Second_def time_Now_def
          six_minutes_later_def clock_reply_def)
  have nz: "\<not> IsZero (Add epoch (5 * Minute))"
    by (simp add: IsZero_def zeroTime_def Add_def epoch_def Minute_def Second_def)
  have af: "After (Add epoch (6 * Minute)) (Add epoch (5 * Minute))"
    by (simp add: After_def Add_def epoch_def Minute_def Second_def)
  have e: "fst (Run default_generator [Tick] six_minutes_later) = Returned None"
    by (simp add: Run_def Let_def dl nz af time_Now_def clock_reply_def printFinalStats_def)
  show ?thesis using a b c d e by (intro conjI)
qed

end
